theory Spec2Isabelle
  imports Complex_Main "HOL-Library.Word" "HOL-Library.Sublist"
begin

section \<open>JavaScript strings\<close>

text \<open>
  A JavaScript string is a sequence of UTF-16 code units. The literals of \<^verbatim>\<open>App.tsx\<close>
  are written with \<open>lit\<close> for their ASCII parts and with explicit code units for the
  accented letters (\<^verbatim>\<open>0xE3\<close>, \<^verbatim>\<open>0xE1\<close>, \<^verbatim>\<open>0xE7\<close>) and the line feed (\<^verbatim>\<open>0x0A\<close>).
\<close>

type_synonym code_unit = "16 word"
type_synonym jsstring = "code_unit list"

definition lit :: "string \<Rightarrow> jsstring" where
  "lit s = map (\<lambda>c. of_nat (of_char c)) s"

text \<open>
  \<^verbatim>\<open>String.prototype.trim\<close> removes the code units of WhiteSpace and LineTerminator
  from both ends: TAB, LF, VT, FF, CR, SP, NBSP, U+1680, U+2000 to U+200A, U+2028, U+2029,
  U+202F, U+205F, U+3000 and U+FEFF.
\<close>

definition is_ws :: "code_unit \<Rightarrow> bool" where
  "is_ws c \<longleftrightarrow>
     c = 0x0009 \<or> c = 0x000A \<or> c = 0x000B \<or> c = 0x000C \<or> c = 0x000D \<or> c = 0x0020 \<or>
     c = 0x00A0 \<or> c = 0x1680 \<or> (0x2000 \<le> c \<and> c \<le> 0x200A) \<or> c = 0x2028 \<or>
     c = 0x2029 \<or> c = 0x202F \<or> c = 0x205F \<or> c = 0x3000 \<or> c = 0xFEFF"

definition trim :: "jsstring \<Rightarrow> jsstring" where
  "trim s = rev (dropWhile is_ws (rev (dropWhile is_ws s)))"

section \<open>Data of \<^verbatim>\<open>App.tsx\<close>\<close>

text \<open>
  \<^verbatim>\<open>interface Review\<close> and \<^verbatim>\<open>interface ProductData\<close>. The two \<^verbatim>\<open>number\<close> fields are
  only displayed, never computed with by a handler; the \<^verbatim>\<open>rating\<close> of a review is
  \<open>review_rating\<close> here, since both interfaces have a field of that name.
\<close>

record Review =
  user :: jsstring
  review_rating :: real
  comment :: jsstring

record ProductData =
  name :: jsstring
  price :: jsstring
  description :: jsstring
  images :: "jsstring list"
  rating :: real
  sold :: jsstring
  reviews :: "Review list"

text \<open>
  A thrown value: the \<^verbatim>\<open>Error\<close> objects that the inference client, \<^verbatim>\<open>JSON.parse\<close>
  and \<^verbatim>\<open>new Error(...)\<close> produce, of which the handler reads \<^verbatim>\<open>message\<close> only.
\<close>

datatype js_error = JsError (message: jsstring)

text \<open>
  What \<^verbatim>\<open>JSON.parse\<close> returns is handed to \<^verbatim>\<open>setProduct\<close> as it is: the assertion
  \<^verbatim>\<open>as ProductData\<close> is erased and nothing checks the value. It is a \<^verbatim>\<open>ProductData\<close>, or a
  falsy value (\<^verbatim>\<open>null\<close>, \<^verbatim>\<open>false\<close>, \<^verbatim>\<open>0\<close>, the empty string), or any other value. Of such
  a foreign value the model keeps what the page reads of it: whether the render goes
  through (it throws on \<^verbatim>\<open>{}\<close> and on \<^verbatim>\<open>5\<close>, where \<^verbatim>\<open>product.images\<close> is undefined), how
  many thumbnail buttons the render makes of it, and the text that the template literal of
  \<^verbatim>\<open>copyToClipboard\<close> makes of it.
\<close>

datatype foreign_value = ForeignValue (renders: bool) (strip: nat) (copy_text: jsstring)

datatype parsed = Record ProductData | Falsy | Other foreign_value

text \<open>
  How the awaited \<^verbatim>\<open>ai.models.generateContent\<close> promise settles: it rejects with an
  error, or resolves to a response whose \<^verbatim>\<open>text\<close> is a string or undefined.
\<close>

datatype outcome = Rejected js_error | Resolved "jsstring option"

text \<open>
  The component's six \<^verbatim>\<open>useState\<close> cells, followed by what the handlers do to the
  outside. The cell \<^verbatim>\<open>product\<close> takes two fields: \<open>product\<close> is the \<^verbatim>\<open>ProductData\<close> it
  holds, \<open>foreign\<close> the foreign value it holds instead; the cell is falsy when both are
  \<open>None\<close>, and no setter leaves both set. Of the outside, \<open>issued\<close> lists the urls of
  the \<^verbatim>\<open>generateContent\<close> calls made so far (the
  rest of each request is fixed text), \<open>inflight\<close> the positions in \<open>issued\<close> of the calls
  that have not settled yet, \<open>console\<close> the values passed to \<^verbatim>\<open>console.error\<close>,
  \<open>clipboard\<close> the texts passed to \<^verbatim>\<open>navigator.clipboard.writeText\<close>. \<open>now\<close> is the
  clock in milliseconds and \<open>timers\<close> the due times of the pending \<^verbatim>\<open>setTimeout\<close>
  callbacks; the only callback of the program is \<^verbatim>\<open>() => setCopied(false)\<close>, and no
  \<^verbatim>\<open>clearTimeout\<close> occurs in the program.
\<close>

record world =
  url :: jsstring
  loading :: bool
  error :: jsstring
  product :: "ProductData option"
  foreign :: "foreign_value option"
  activeImage :: int
  copied :: bool
  issued :: "jsstring list"
  inflight :: "nat list"
  console :: "js_error list"
  clipboard :: "jsstring list"
  now :: nat
  timers :: "nat list"

definition initial :: world where
  "initial = \<lparr> url = [], loading = False, error = [], product = None, foreign = None,
     activeImage = 0,
     copied = False, issued = [], inflight = [], console = [], clipboard = [], now = 0,
     timers = [] \<rparr>"

text \<open>
  \<^verbatim>\<open>const ai = apiKey ? new GoogleGenAI({ apiKey }) : null\<close>: the client exists when the
  environment variable is set to a non-empty string.
\<close>

definition ai :: "jsstring option \<Rightarrow> bool" where
  "ai apiKey = (case apiKey of None \<Rightarrow> False | Some k \<Rightarrow> k \<noteq> [])"

section \<open>The messages\<close>

definition missing_key_message :: jsstring where
  "missing_key_message =
     lit ''A chave da API do Gemini n'' @ [0xE3] @ lit ''o foi configurada. Por favor, adicione a vari''
     @ [0xE1] @ lit ''vel de ambiente GEMINI_API_KEY no Vercel.''"

definition empty_response_message :: jsstring where
  "empty_response_message = lit ''Falha ao extrair os dados.''"

definition generic_message :: jsstring where
  "generic_message = lit ''Ocorreu um erro ao extrair os dados. Verifique a URL e tente novamente.''"

section \<open>\<^verbatim>\<open>handleExtract\<close>\<close>

text \<open>
  \<^verbatim>\<open>setProduct\<close>, by the value it receives.
\<close>

definition setProduct :: "parsed \<Rightarrow> world \<Rightarrow> world" where
  "setProduct v w =
     (case v of
        Record data \<Rightarrow> w\<lparr>product := Some data, foreign := None\<rparr>
      | Falsy \<Rightarrow> w\<lparr>product := None, foreign := None\<rparr>
      | Other f \<Rightarrow> w\<lparr>product := None, foreign := Some f\<rparr>)"

text \<open>
  The handler up to its \<^verbatim>\<open>await\<close>. It reads \<^verbatim>\<open>url\<close> from the state; the call it makes
  is recorded in \<open>issued\<close> and \<open>inflight\<close>.
\<close>

definition handleExtract :: "jsstring option \<Rightarrow> world \<Rightarrow> world" where
  "handleExtract apiKey w =
     (if trim (url w) = [] then w
      else if \<not> ai apiKey then w\<lparr>error := missing_key_message\<rparr>
      else w\<lparr>loading := True, error := [], product := None, foreign := None,
             issued := issued w @ [url w],
             inflight := inflight w @ [length (issued w)]\<rparr>)"

text \<open>
  The body of the \<^verbatim>\<open>try\<close> block after the call has settled: \<open>Inl\<close> is the value thrown
  to the \<^verbatim>\<open>catch\<close> clause, \<open>Inr\<close> the value handed to \<^verbatim>\<open>setProduct\<close>. \<^verbatim>\<open>JSON.parse\<close> is
  the parameter \<open>parse\<close>: on a text it throws or returns a value, whatever value the text
  denotes. An undefined and an empty \<^verbatim>\<open>response.text\<close> are both falsy.
\<close>

definition try_block :: "(jsstring \<Rightarrow> js_error + parsed) \<Rightarrow> outcome \<Rightarrow> js_error + parsed" where
  "try_block parse oc =
     (case oc of
        Rejected e \<Rightarrow> Inl e
      | Resolved None \<Rightarrow> Inl (JsError empty_response_message)
      | Resolved (Some t) \<Rightarrow> if t \<noteq> [] then parse t else Inl (JsError empty_response_message))"

text \<open>
  The handler from the \<^verbatim>\<open>await\<close> on, for the call at position \<open>k\<close> of \<open>issued\<close>: the
  \<^verbatim>\<open>try\<close> block, the \<^verbatim>\<open>catch\<close> clause (\<^verbatim>\<open>err.message || '...'\<close>) and the \<^verbatim>\<open>finally\<close>
  clause. A call settles once: nothing happens for a \<open>k\<close> that is not in flight.
\<close>

definition handleExtract_resume ::
    "(jsstring \<Rightarrow> js_error + parsed) \<Rightarrow> nat \<Rightarrow> outcome \<Rightarrow> world \<Rightarrow> world" where
  "handleExtract_resume parse k oc w =
     (if k \<notin> set (inflight w) then w
      else
        let w1 = (case try_block parse oc of
                    Inr data \<Rightarrow> (setProduct data w)\<lparr>activeImage := 0\<rparr>
                  | Inl err \<Rightarrow> w\<lparr>console := console w @ [err],
                                 error := (if message err \<noteq> [] then message err
                                           else generic_message)\<rparr>)
        in w1\<lparr>loading := False, inflight := removeAll k (inflight w1)\<rparr>)"

section \<open>\<^verbatim>\<open>copyToClipboard\<close> and its timer\<close>

definition summary :: "ProductData \<Rightarrow> jsstring" where
  "summary p =
     lit ''Produto: '' @ name p @ [0x0A] @ lit ''Pre'' @ [0xE7] @ lit ''o: '' @ price p
     @ [0x0A, 0x0A] @ lit ''Descri'' @ [0xE7, 0xE3] @ lit ''o:'' @ [0x0A] @ description p"

definition copyToClipboard :: "world \<Rightarrow> world" where
  "copyToClipboard w =
     (case product w of
        None \<Rightarrow>
          (case foreign w of
             None \<Rightarrow> w
           | Some f \<Rightarrow> w\<lparr>clipboard := clipboard w @ [copy_text f], copied := True,
                          timers := timers w @ [now w + 2000]\<rparr>)
      | Some p \<Rightarrow> w\<lparr>clipboard := clipboard w @ [summary p], copied := True,
                    timers := timers w @ [now w + 2000]\<rparr>)"

text \<open>
  The clock moves on by \<open>d\<close> milliseconds: every timer that is due by then runs its
  callback \<^verbatim>\<open>setCopied(false)\<close> and is gone.
\<close>

definition advance :: "nat \<Rightarrow> world \<Rightarrow> world" where
  "advance d w =
     (let t = now w + d in
      w\<lparr>now := t,
        copied := (if list_ex (\<lambda>due. due \<le> t) (timers w) then False else copied w),
        timers := filter (\<lambda>due. t < due) (timers w)\<rparr>)"

section \<open>The thumbnail strip\<close>

text \<open>
  The strip is rendered when there is a product with more than one image, with one button
  per index of \<^verbatim>\<open>product.images\<close>; the button at \<open>idx\<close> calls \<^verbatim>\<open>setActiveImage(idx)\<close>.
  Selecting an index that has no button is no event at all. Of a foreign value the render
  makes \<open>strip\<close> buttons.
\<close>

definition thumbnails :: "world \<Rightarrow> int list" where
  "thumbnails w =
     (case product w of
        None \<Rightarrow> (case foreign w of None \<Rightarrow> [] | Some f \<Rightarrow> map int [0 ..< strip f])
      | Some p \<Rightarrow> if length (images p) > 1 then map int [0 ..< length (images p)] else [])"

definition setActiveImage :: "int \<Rightarrow> world \<Rightarrow> world" where
  "setActiveImage idx w = w\<lparr>activeImage := idx\<rparr>"

definition selectImage :: "int \<Rightarrow> world \<Rightarrow> world" where
  "selectImage i w = (if i \<in> set (thumbnails w) then setActiveImage i w else w)"

section \<open>The page as a transition system\<close>

text \<open>
  The events of the rendered page. The submit button carries \<^verbatim>\<open>disabled={loading}\<close>, so
  the form is not submitted while \<open>loading\<close> holds. The browser's own validation of the
  input field (\<^verbatim>\<open>type="url"\<close>, \<^verbatim>\<open>required\<close>) is not modelled: the handler checks the url
  again by itself.

  When the render throws on the value in the \<^verbatim>\<open>product\<close> cell, the component is taken
  off the page (the program has no error boundary): no form and no button is left, and
  the setters of the removed component do nothing. A call still in flight settles and a
  pending timer fires all the same: the handler runs up to \<^verbatim>\<open>console.error\<close>, the timer
  is gone, and the six cells stay as they are.
\<close>

datatype event =
    ChangeUrl jsstring
  | SubmitForm
  | Settle nat outcome
  | ClickThumbnail int
  | ClickCopy
  | Elapse nat

definition unmounted :: "world \<Rightarrow> bool" where
  "unmounted w = (case foreign w of None \<Rightarrow> False | Some f \<Rightarrow> \<not> renders f)"

definition fire_unmounted ::
    "(jsstring \<Rightarrow> js_error + parsed) \<Rightarrow> event \<Rightarrow> world \<Rightarrow> world" where
  "fire_unmounted parse e w =
     (case e of
        Settle k oc \<Rightarrow>
          if k \<notin> set (inflight w) then w
          else w\<lparr>console := (case try_block parse oc of
                                 Inl err \<Rightarrow> console w @ [err]
                               | Inr data \<Rightarrow> console w),
                 inflight := removeAll k (inflight w)\<rparr>
      | Elapse d \<Rightarrow> (advance d w)\<lparr>copied := copied w\<rparr>
      | _ \<Rightarrow> w)"

definition fire ::
    "jsstring option \<Rightarrow> (jsstring \<Rightarrow> js_error + parsed) \<Rightarrow> event \<Rightarrow> world \<Rightarrow> world" where
  "fire apiKey parse e w =
     (if unmounted w then fire_unmounted parse e w
      else
        (case e of
           ChangeUrl s \<Rightarrow> w\<lparr>url := s\<rparr>
         | SubmitForm \<Rightarrow> if loading w then w else handleExtract apiKey w
         | Settle k oc \<Rightarrow> handleExtract_resume parse k oc w
         | ClickThumbnail i \<Rightarrow> selectImage i w
         | ClickCopy \<Rightarrow> copyToClipboard w
         | Elapse d \<Rightarrow> advance d w))"

definition run ::
    "jsstring option \<Rightarrow> (jsstring \<Rightarrow> js_error + parsed) \<Rightarrow> event list \<Rightarrow> world \<Rightarrow> world" where
  "run apiKey parse evs w = foldl (\<lambda>w e. fire apiKey parse e w) w evs"

section \<open>The status shown\<close>

text \<open>
  The program keeps no status field. The page shows the error box whenever \<open>error\<close> is
  non-empty, the spinner whenever \<open>loading\<close> holds, and the product whenever the
  \<^verbatim>\<open>product\<close> cell is truthy; the four statuses of the specification are read off in that
  order.
\<close>

datatype status = Idle | Loading | Error | Ready

definition status_of :: "world \<Rightarrow> status" where
  "status_of w =
     (if error w \<noteq> [] then Error
      else if loading w then Loading
      else if product w \<noteq> None then Ready
      else if foreign w \<noteq> None then Ready
      else Idle)"

section \<open>What holds in every state the page can reach\<close>

text \<open>
  At most one call is in flight, the latest one issued, and then the page is loading,
  shows no error and its \<^verbatim>\<open>product\<close> cell is falsy; the selected image is the first
  one or a valid index of the product's
  images.
\<close>

definition ui_inv :: "world \<Rightarrow> bool" where
  "ui_inv w \<longleftrightarrow>
     (if inflight w = [] then True
      else loading w \<and> error w = [] \<and> product w = None \<and> foreign w = None \<and>
           issued w \<noteq> [] \<and> inflight w = [length (issued w) - 1])
     \<and> (case product w of
          None \<Rightarrow> True
        | Some p \<Rightarrow> activeImage w = 0 \<or>
                    (0 \<le> activeImage w \<and> activeImage w < int (length (images p))))"

section \<open>Sample data\<close>

text \<open>
  A record after the example of the specification, with the images left open, and a
  stand-in for \<^verbatim>\<open>JSON.parse\<close> that knows two payloads with a product, the texts
  \<^verbatim>\<open>null\<close> and \<^verbatim>\<open>{}\<close>, and throws on every other text. On \<^verbatim>\<open>{}\<close> the render throws, and
  the template literal makes \<^verbatim>\<open>undefined\<close> of each of its fields.
\<close>

definition widget :: "jsstring list \<Rightarrow> ProductData" where
  "widget imgs = \<lparr> name = lit ''Blue Widget'', price = lit ''R$ 29,90'', description = lit ''...'',
     images = imgs, rating = 47 / 10, sold = lit ''1.2k'',
     reviews = [\<lparr> user = lit ''Ana'', review_rating = 5, comment = [0xD3] @ lit ''timo!'' \<rparr>] \<rparr>"

definition empty_object :: foreign_value where
  "empty_object = ForeignValue False 0
     (lit ''Produto: undefined'' @ [0x0A] @ lit ''Pre'' @ [0xE7] @ lit ''o: undefined''
      @ [0x0A, 0x0A] @ lit ''Descri'' @ [0xE7, 0xE3] @ lit ''o:'' @ [0x0A] @ lit ''undefined'')"

definition sample_parse :: "jsstring \<Rightarrow> js_error + parsed" where
  "sample_parse t =
     (if t = lit ''A'' then Inr (Record (widget [lit ''a1'', lit ''a2'', lit ''a3'']))
      else if t = lit ''B'' then Inr (Record (widget [lit ''b1'']))
      else if t = lit ''null'' then Inr Falsy
      else if t = lit ''{}'' then Inr (Other empty_object)
      else Inl (JsError (lit ''Unexpected token'')))"

section \<open>Auxiliary facts\<close>

lemma dropWhile_all_ws: "(\<forall>c \<in> set (dropWhile P s). P c) \<longleftrightarrow> (\<forall>c \<in> set s. P c)"
  by (induction s) auto

lemma trim_empty_iff: "trim s = [] \<longleftrightarrow> (\<forall>c \<in> set s. is_ws c)"
  by (simp add: trim_def dropWhile_all_ws)

lemma missing_key_message_nonempty: "missing_key_message \<noteq> []"
  by (simp add: missing_key_message_def lit_def)

lemma generic_message_nonempty: "generic_message \<noteq> []"
  by (simp add: generic_message_def lit_def)

lemma ui_inv_initial: "ui_inv initial"
  by (simp add: ui_inv_def initial_def)

lemma ui_inv_handleExtract:
  assumes "ui_inv w" "\<not> loading w"
  shows "ui_inv (handleExtract apiKey w)"
  using assms by (auto simp: ui_inv_def handleExtract_def split: if_splits option.splits)

lemma ui_inv_resume:
  assumes "ui_inv w"
  shows "ui_inv (handleExtract_resume parse k oc w)"
  using assms
  by (auto simp: ui_inv_def handleExtract_resume_def setProduct_def Let_def
           split: if_splits option.splits sum.splits parsed.splits)

lemma ui_inv_selectImage:
  assumes "ui_inv w"
  shows "ui_inv (selectImage i w)"
  using assms
  by (auto simp: ui_inv_def selectImage_def setActiveImage_def thumbnails_def
           split: if_splits option.splits)

lemma ui_inv_copy:
  assumes "ui_inv w"
  shows "ui_inv (copyToClipboard w)"
  using assms
  by (auto simp: ui_inv_def copyToClipboard_def split: if_splits option.splits)

lemma ui_inv_advance:
  assumes "ui_inv w"
  shows "ui_inv (advance d w)"
  using assms
  by (auto simp: ui_inv_def advance_def Let_def split: if_splits option.splits)

lemma ui_inv_fire_unmounted:
  assumes "ui_inv w"
  shows "ui_inv (fire_unmounted parse e w)"
  using assms
  by (cases e)
     (auto simp: fire_unmounted_def ui_inv_def advance_def Let_def
           split: if_splits option.splits sum.splits)

lemma fire_mounted:
  "\<not> unmounted w \<Longrightarrow> fire apiKey parse e w =
     (case e of
        ChangeUrl s \<Rightarrow> w\<lparr>url := s\<rparr>
      | SubmitForm \<Rightarrow> if loading w then w else handleExtract apiKey w
      | Settle k oc \<Rightarrow> handleExtract_resume parse k oc w
      | ClickThumbnail i \<Rightarrow> selectImage i w
      | ClickCopy \<Rightarrow> copyToClipboard w
      | Elapse d \<Rightarrow> advance d w)"
  by (simp add: fire_def)

lemma ui_inv_mounted_fire:
  assumes "ui_inv w" and m: "\<not> unmounted w"
  shows "ui_inv (fire apiKey parse e w)"
proof (cases e)
  case (ChangeUrl s)
  with assms show ?thesis
    by (auto simp: fire_mounted [OF m] ui_inv_def split: option.splits)
next
  case SubmitForm
  with assms show ?thesis by (simp add: fire_mounted [OF m] ui_inv_handleExtract)
next
  case (Settle k oc)
  with assms show ?thesis by (simp add: fire_mounted [OF m] ui_inv_resume)
next
  case (ClickThumbnail i)
  with assms show ?thesis by (simp add: fire_mounted [OF m] ui_inv_selectImage)
next
  case ClickCopy
  with assms show ?thesis by (simp add: fire_mounted [OF m] ui_inv_copy)
next
  case (Elapse d)
  with assms show ?thesis by (simp add: fire_mounted [OF m] ui_inv_advance)
qed

lemma ui_inv_fire:
  assumes "ui_inv w"
  shows "ui_inv (fire apiKey parse e w)"
proof (cases "unmounted w")
  case True
  with assms show ?thesis by (simp add: fire_def ui_inv_fire_unmounted)
next
  case False
  with assms show ?thesis by (rule ui_inv_mounted_fire)
qed

lemma ui_inv_run: "ui_inv w \<Longrightarrow> ui_inv (run apiKey parse evs w)"
  unfolding run_def by (induction evs arbitrary: w) (simp_all add: ui_inv_fire)

lemma ui_inv_reachable: "ui_inv (run apiKey parse evs initial)"
  by (simp add: ui_inv_run ui_inv_initial)

lemma run_Nil: "run apiKey parse [] w = w"
  by (simp add: run_def)

lemma run_Cons: "run apiKey parse (e # evs) w = run apiKey parse evs (fire apiKey parse e w)"
  by (simp add: run_def)

lemma sample_running:
  "run (Some (lit ''k'')) sample_parse [ChangeUrl (lit ''u''), SubmitForm] initial
     = initial\<lparr>url := lit ''u'', loading := True, issued := [lit ''u''], inflight := [0]\<rparr>"
  by (simp add: run_Nil run_Cons fire_def unmounted_def handleExtract_def initial_def ai_def
        lit_def trim_def is_ws_def)

lemma sample_ready:
  "run (Some (lit ''k'')) sample_parse
       [ChangeUrl (lit ''u''), SubmitForm, Settle 0 (Resolved (Some (lit ''A'')))] initial
     = initial\<lparr>url := lit ''u'', issued := [lit ''u''],
         product := Some (widget [lit ''a1'', lit ''a2'', lit ''a3''])\<rparr>"
  by (simp add: run_Nil run_Cons fire_def unmounted_def handleExtract_def
        handleExtract_resume_def setProduct_def try_block_def sample_parse_def initial_def
        ai_def lit_def trim_def is_ws_def)

lemma try_block_failing:
  assumes "oc = Rejected err
         \<or> ((oc = Resolved None \<or> oc = Resolved (Some [])) \<and> err = JsError empty_response_message)
         \<or> (\<exists>t. oc = Resolved (Some t) \<and> t \<noteq> [] \<and> parse t = Inl err)"
  shows "try_block parse oc = Inl err"
  using assms by (auto simp: try_block_def)

lemma resume_failure:
  assumes "k \<in> set (inflight w)" and "try_block parse oc = Inl err"
  shows "handleExtract_resume parse k oc w =
           w\<lparr>console := console w @ [err],
             error := (if message err \<noteq> [] then message err else generic_message),
             loading := False, inflight := removeAll k (inflight w)\<rparr>"
  using assms by (simp add: handleExtract_resume_def)

lemma inflight_product_None:
  assumes "ui_inv w" and "k \<in> set (inflight w)"
  shows "product w = None"
  using assms by (auto simp: ui_inv_def split: if_splits)

lemma inflight_no_error:
  assumes "ui_inv w" and "k \<in> set (inflight w)"
  shows "error w = []" and "foreign w = None"
  using assms by (auto simp: ui_inv_def split: if_splits)

lemma resume_value:
  assumes "k \<in> set (inflight w)" and "try_block parse oc = Inr v"
  shows "handleExtract_resume parse k oc w =
           (setProduct v w)\<lparr>activeImage := 0, loading := False,
             inflight := removeAll k (inflight w)\<rparr>"
  using assms by (simp add: handleExtract_resume_def setProduct_def split: parsed.splits)

lemma thumbnails_mem:
  assumes "product w = Some r"
  shows "i \<in> set (thumbnails w) \<longleftrightarrow>
           1 < length (images r) \<and> 0 \<le> i \<and> i < int (length (images r))"
  using assms by (auto simp: thumbnails_def image_iff intro: bexI [of _ "nat i"])

section \<open>Submitting the form\<close>

text \<open>
  Claim C1, as stated, at a concrete input: with no API key in the environment, submitting
  the url \<^verbatim>\<open>x\<close> from a state that holds a product does not make the status Loading and
  does not clear the product.
\<close>

theorem submit_without_key_counterexample:
  "trim (url (initial\<lparr>url := lit ''x'', product := Some (widget [])\<rparr>)) \<noteq> []
   \<and> status_of (handleExtract None (initial\<lparr>url := lit ''x'', product := Some (widget [])\<rparr>))
       \<noteq> Loading
   \<and> product (handleExtract None (initial\<lparr>url := lit ''x'', product := Some (widget [])\<rparr>))
       \<noteq> None"
  by (simp add: handleExtract_def ai_def initial_def trim_def lit_def is_ws_def status_of_def
        missing_key_message_def)

text \<open>
  Claim C1, amended: when the API client is configured, for every url whose trimmed form is
  non-empty, submitting moves the status to Loading, clears the product and the error
  message, and issues one extraction call for that url.
\<close>

theorem submit_starts_loading:
  assumes "ai apiKey" and "trim (url w) \<noteq> []"
  shows "status_of (handleExtract apiKey w) = Loading
         \<and> loading (handleExtract apiKey w)
         \<and> product (handleExtract apiKey w) = None
         \<and> foreign (handleExtract apiKey w) = None
         \<and> error (handleExtract apiKey w) = []
         \<and> issued (handleExtract apiKey w) = issued w @ [url w]"
  using assms by (simp add: handleExtract_def status_of_def)

theorem submit_starts_loading_witness:
  "ai (Some (lit ''k''))
   \<and> trim (url (initial\<lparr>url := lit ''x'', error := lit ''e'', product := Some (widget [])\<rparr>)) \<noteq> []
   \<and> status_of (handleExtract (Some (lit ''k''))
        (initial\<lparr>url := lit ''x'', error := lit ''e'', product := Some (widget [])\<rparr>)) = Loading
   \<and> product (handleExtract (Some (lit ''k''))
        (initial\<lparr>url := lit ''x'', error := lit ''e'', product := Some (widget [])\<rparr>)) = None
   \<and> error (handleExtract (Some (lit ''k''))
        (initial\<lparr>url := lit ''x'', error := lit ''e'', product := Some (widget [])\<rparr>)) = []"
proof -
  have k: "ai (Some (lit ''k''))" by (simp add: ai_def lit_def)
  have u: "trim (url (initial\<lparr>url := lit ''x'', error := lit ''e'', product := Some (widget [])\<rparr>)) \<noteq> []"
    by (simp add: trim_def lit_def is_ws_def)
  show ?thesis using k u submit_starts_loading [OF k u] by simp
qed

text \<open>
  Claim C2: when the url is empty or consists of whitespace only, submitting leaves the
  whole state as it is, the record of external calls included; the status does not change.
\<close>

theorem blank_submit_is_noop:
  assumes "\<forall>c \<in> set (url w). is_ws c"
  shows "handleExtract apiKey w = w \<and> issued (handleExtract apiKey w) = issued w
         \<and> status_of (handleExtract apiKey w) = status_of w"
  using assms by (simp add: handleExtract_def trim_empty_iff)

theorem blank_submit_is_noop_witness:
  "handleExtract (Some (lit ''k'')) (initial\<lparr>url := lit ''   ''\<rparr>) = initial\<lparr>url := lit ''   ''\<rparr>
   \<and> handleExtract None initial = initial"
proof -
  have a: "\<forall>c \<in> set (url (initial\<lparr>url := lit ''   ''\<rparr>)). is_ws c"
    by (simp add: lit_def is_ws_def)
  have b: "\<forall>c \<in> set (url initial). is_ws c" by (simp add: initial_def)
  show ?thesis
    using blank_submit_is_noop [OF a, of "Some (lit ''k'')"] blank_submit_is_noop [OF b, of None]
    by simp
qed

text \<open>
  Claim C3: when the API client is not configured, submitting a url whose trimmed form is
  non-empty gives the Error status with the fixed configuration message at once, and no
  external call is issued.
\<close>

theorem missing_key_gives_error:
  assumes "\<not> ai apiKey" and "trim (url w) \<noteq> []"
  shows "status_of (handleExtract apiKey w) = Error
         \<and> error (handleExtract apiKey w) = missing_key_message
         \<and> issued (handleExtract apiKey w) = issued w
         \<and> inflight (handleExtract apiKey w) = inflight w"
  using assms by (simp add: handleExtract_def status_of_def missing_key_message_nonempty)

theorem missing_key_gives_error_witness:
  "\<not> ai None \<and> \<not> ai (Some []) \<and> trim (url (initial\<lparr>url := lit ''x''\<rparr>)) \<noteq> []
   \<and> status_of (handleExtract None (initial\<lparr>url := lit ''x''\<rparr>)) = Error
   \<and> error (handleExtract (Some []) (initial\<lparr>url := lit ''x''\<rparr>)) = missing_key_message
   \<and> issued (handleExtract None (initial\<lparr>url := lit ''x''\<rparr>)) = []"
proof -
  have k: "\<not> ai None" "\<not> ai (Some [])" by (simp_all add: ai_def)
  have u: "trim (url (initial\<lparr>url := lit ''x''\<rparr>)) \<noteq> []"
    by (simp add: trim_def lit_def is_ws_def)
  have i: "issued (initial\<lparr>url := lit ''x''\<rparr>) = []" by (simp add: initial_def)
  show ?thesis
    using k u i missing_key_gives_error [OF k(1) u] missing_key_gives_error [OF k(2) u]
    by simp
qed

text \<open>
  Claim C10: on the missing-key path, submitting a url whose trimmed form is non-empty
  changes the error message and nothing else: the product, the selected image, the copied
  flag, the url and the loading flag are as before, so a product of an earlier extraction
  stays beside the Error status.
\<close>

theorem missing_key_changes_error_only:
  assumes "\<not> ai apiKey" and "trim (url w) \<noteq> []"
  shows "handleExtract apiKey w = w\<lparr>error := missing_key_message\<rparr>
         \<and> product (handleExtract apiKey w) = product w
         \<and> activeImage (handleExtract apiKey w) = activeImage w
         \<and> copied (handleExtract apiKey w) = copied w
         \<and> url (handleExtract apiKey w) = url w
         \<and> loading (handleExtract apiKey w) = loading w"
  using assms by (simp add: handleExtract_def)

theorem missing_key_changes_error_only_witness:
  "\<not> ai None
   \<and> trim (url (initial\<lparr>url := lit ''y'', product := Some (widget [])\<rparr>)) \<noteq> []
   \<and> product (handleExtract None (initial\<lparr>url := lit ''y'', product := Some (widget [])\<rparr>))
       = Some (widget [])
   \<and> status_of (handleExtract None (initial\<lparr>url := lit ''y'', product := Some (widget [])\<rparr>))
       = Error"
proof -
  have k: "\<not> ai None" by (simp add: ai_def)
  have u: "trim (url (initial\<lparr>url := lit ''y'', product := Some (widget [])\<rparr>)) \<noteq> []"
    by (simp add: trim_def lit_def is_ws_def)
  show ?thesis
    using k u missing_key_changes_error_only [OF k u]
    by (simp add: status_of_def missing_key_message_nonempty)
qed

section \<open>Settling the extraction call\<close>

text \<open>
  Claim C4, as stated, at a concrete input: the call in flight resolves with the text
  \<^verbatim>\<open>null\<close>. The text is truthy and \<^verbatim>\<open>JSON.parse\<close> returns \<^verbatim>\<open>null\<close> for it, which is no
  product record; \<^verbatim>\<open>setProduct(null)\<close> runs, the \<^verbatim>\<open>catch\<close> clause is not entered, and the
  page ends with no error message and no product: the status is Idle, not Error. With the
  text \<^verbatim>\<open>{}\<close> the empty object is installed as the product, again with no error, and
  the render throws on it.
\<close>

theorem null_payload_counterexample:
  "status_of (handleExtract_resume sample_parse 0 (Resolved (Some (lit ''null'')))
      (run (Some (lit ''k'')) sample_parse [ChangeUrl (lit ''u''), SubmitForm] initial)) = Idle
   \<and> error (handleExtract_resume sample_parse 0 (Resolved (Some (lit ''null'')))
      (run (Some (lit ''k'')) sample_parse [ChangeUrl (lit ''u''), SubmitForm] initial)) = []
   \<and> console (handleExtract_resume sample_parse 0 (Resolved (Some (lit ''null'')))
      (run (Some (lit ''k'')) sample_parse [ChangeUrl (lit ''u''), SubmitForm] initial)) = []
   \<and> error (handleExtract_resume sample_parse 0 (Resolved (Some (lit ''{}'')))
      (run (Some (lit ''k'')) sample_parse [ChangeUrl (lit ''u''), SubmitForm] initial)) = []
   \<and> foreign (handleExtract_resume sample_parse 0 (Resolved (Some (lit ''{}'')))
      (run (Some (lit ''k'')) sample_parse [ChangeUrl (lit ''u''), SubmitForm] initial))
       = Some empty_object
   \<and> unmounted (handleExtract_resume sample_parse 0 (Resolved (Some (lit ''{}'')))
      (run (Some (lit ''k'')) sample_parse [ChangeUrl (lit ''u''), SubmitForm] initial))"
  unfolding sample_running
  by (simp add: handleExtract_resume_def setProduct_def try_block_def sample_parse_def
        status_of_def unmounted_def empty_object_def initial_def lit_def)

text \<open>
  Claim C4, amended: in every state the page can reach, when a call in flight fails in
  the sense of the code (the call rejects with \<open>err\<close>, or its payload is undefined or
  empty, or \<^verbatim>\<open>JSON.parse\<close> throws \<open>err\<close> on it), the \<^verbatim>\<open>catch\<close> clause takes the thrown
  value (it is logged, and the handler ends in a state): the status is Error, the error
  message is the message of \<open>err\<close>, or the generic message when that one is empty, and the
  \<^verbatim>\<open>product\<close> cell is falsy. A payload on which \<^verbatim>\<open>JSON.parse\<close> returns a value \<open>v\<close> is no
  failure, whether or not \<open>v\<close> is a product record: \<open>v\<close> is handed to \<^verbatim>\<open>setProduct\<close>
  unchecked, nothing is logged and no error message is set.
\<close>

theorem failure_is_caught:
  assumes reach: "w = run apiKey parse evs initial"
    and k: "k \<in> set (inflight w)"
  shows "(oc = Rejected err
           \<or> ((oc = Resolved None \<or> oc = Resolved (Some [])) \<and> err = JsError empty_response_message)
           \<or> (\<exists>t. oc = Resolved (Some t) \<and> t \<noteq> [] \<and> parse t = Inl err)
          \<longrightarrow> status_of (handleExtract_resume parse k oc w) = Error
              \<and> error (handleExtract_resume parse k oc w)
                  = (if message err \<noteq> [] then message err else generic_message)
              \<and> product (handleExtract_resume parse k oc w) = None
              \<and> foreign (handleExtract_resume parse k oc w) = None
              \<and> console (handleExtract_resume parse k oc w) = console w @ [err]
              \<and> \<not> loading (handleExtract_resume parse k oc w))
         \<and> (oc = Resolved (Some t) \<and> t \<noteq> [] \<and> parse t = Inr v
          \<longrightarrow> handleExtract_resume parse k oc w
                = (setProduct v w)\<lparr>activeImage := 0, loading := False,
                    inflight := removeAll k (inflight w)\<rparr>
              \<and> error (handleExtract_resume parse k oc w) = []
              \<and> console (handleExtract_resume parse k oc w) = console w
              \<and> status_of (handleExtract_resume parse k oc w) \<noteq> Error)"
proof -
  have inv: "ui_inv w" using reach by (simp add: ui_inv_reachable)
  have none: "product w = None" using inv k by (rule inflight_product_None)
  have clean: "error w = []" "foreign w = None" using inv k by (rule inflight_no_error)+
  have failing: "status_of (handleExtract_resume parse k oc w) = Error
              \<and> error (handleExtract_resume parse k oc w)
                  = (if message err \<noteq> [] then message err else generic_message)
              \<and> product (handleExtract_resume parse k oc w) = None
              \<and> foreign (handleExtract_resume parse k oc w) = None
              \<and> console (handleExtract_resume parse k oc w) = console w @ [err]
              \<and> \<not> loading (handleExtract_resume parse k oc w)"
    if fails: "oc = Rejected err
           \<or> ((oc = Resolved None \<or> oc = Resolved (Some [])) \<and> err = JsError empty_response_message)
           \<or> (\<exists>t. oc = Resolved (Some t) \<and> t \<noteq> [] \<and> parse t = Inl err)"
  proof -
    have tb: "try_block parse oc = Inl err" using fails by (rule try_block_failing)
    show ?thesis
      by (simp add: resume_failure [OF k tb] none clean status_of_def generic_message_nonempty)
  qed
  have accepted: "handleExtract_resume parse k oc w
                = (setProduct v w)\<lparr>activeImage := 0, loading := False,
                    inflight := removeAll k (inflight w)\<rparr>
              \<and> error (handleExtract_resume parse k oc w) = []
              \<and> console (handleExtract_resume parse k oc w) = console w
              \<and> status_of (handleExtract_resume parse k oc w) \<noteq> Error"
    if ok: "oc = Resolved (Some t) \<and> t \<noteq> [] \<and> parse t = Inr v"
  proof -
    have tb: "try_block parse oc = Inr v" using ok by (simp add: try_block_def)
    show ?thesis
      by (simp add: resume_value [OF k tb] setProduct_def clean status_of_def
            split: parsed.splits)
  qed
  show ?thesis using failing accepted by blast
qed

theorem failure_is_caught_witness:
  "status_of (handleExtract_resume sample_parse 0 (Rejected (JsError []))
      (run (Some (lit ''k'')) sample_parse [ChangeUrl (lit ''u''), SubmitForm] initial)) = Error
   \<and> error (handleExtract_resume sample_parse 0 (Rejected (JsError []))
      (run (Some (lit ''k'')) sample_parse [ChangeUrl (lit ''u''), SubmitForm] initial))
       = generic_message
   \<and> error (handleExtract_resume sample_parse 0 (Resolved None)
      (run (Some (lit ''k'')) sample_parse [ChangeUrl (lit ''u''), SubmitForm] initial))
       = empty_response_message
   \<and> error (handleExtract_resume sample_parse 0 (Resolved (Some (lit ''<html>'')))
      (run (Some (lit ''k'')) sample_parse [ChangeUrl (lit ''u''), SubmitForm] initial))
       = lit ''Unexpected token''
   \<and> product (handleExtract_resume sample_parse 0 (Resolved (Some (lit ''<html>'')))
      (run (Some (lit ''k'')) sample_parse [ChangeUrl (lit ''u''), SubmitForm] initial)) = None
   \<and> error (handleExtract_resume sample_parse 0 (Resolved (Some (lit ''null'')))
      (run (Some (lit ''k'')) sample_parse [ChangeUrl (lit ''u''), SubmitForm] initial)) = []"
proof -
  let ?w = "run (Some (lit ''k'')) sample_parse [ChangeUrl (lit ''u''), SubmitForm] initial"
  have k: "0 \<in> set (inflight ?w)" by (simp add: sample_running)
  have p: "sample_parse (lit ''<html>'') = Inl (JsError (lit ''Unexpected token''))"
    by (simp add: sample_parse_def lit_def)
  have q: "sample_parse (lit ''null'') = Inr Falsy"
    by (simp add: sample_parse_def lit_def)
  have n: "lit ''<html>'' \<noteq> []" "lit ''null'' \<noteq> []"
    by (simp_all add: lit_def)
  have m: "empty_response_message \<noteq> []" "lit ''Unexpected token'' \<noteq> []"
    by (simp_all add: empty_response_message_def lit_def)
  have a: "status_of (handleExtract_resume sample_parse 0 (Rejected (JsError [])) ?w) = Error
      \<and> error (handleExtract_resume sample_parse 0 (Rejected (JsError [])) ?w) = generic_message"
    using failure_is_caught [OF refl k, of "Rejected (JsError [])" "JsError []" "[]" Falsy]
    by simp
  have b: "error (handleExtract_resume sample_parse 0 (Resolved None) ?w)
      = empty_response_message"
    using failure_is_caught [OF refl k, of "Resolved None" "JsError empty_response_message"
        "[]" Falsy] m
    by simp
  have c: "error (handleExtract_resume sample_parse 0 (Resolved (Some (lit ''<html>''))) ?w)
        = lit ''Unexpected token''
      \<and> product (handleExtract_resume sample_parse 0 (Resolved (Some (lit ''<html>''))) ?w)
        = None"
    using failure_is_caught [OF refl k, of "Resolved (Some (lit ''<html>''))"
        "JsError (lit ''Unexpected token'')" "[]" Falsy] p n m
    by simp
  have d: "error (handleExtract_resume sample_parse 0 (Resolved (Some (lit ''null''))) ?w) = []"
    using failure_is_caught [OF refl k, of "Resolved (Some (lit ''null''))" "JsError []"
        "lit ''null''" Falsy] q n(2)
    by blast
  show ?thesis using a b c d by simp
qed

text \<open>
  Claim C9: when a call that was started settles, whatever its outcome (a product, a
  rejection, a missing or unparsable payload), \<open>loading\<close> is false afterwards, so the status
  is not Loading, and the call is no longer in flight.
\<close>

theorem settled_call_is_not_loading:
  assumes "k \<in> set (inflight w)"
  shows "\<not> loading (handleExtract_resume parse k oc w)
         \<and> status_of (handleExtract_resume parse k oc w) \<noteq> Loading
         \<and> k \<notin> set (inflight (handleExtract_resume parse k oc w))"
  using assms
  by (simp add: handleExtract_resume_def setProduct_def status_of_def Let_def
        split: sum.splits parsed.splits)

theorem settled_call_is_not_loading_witness:
  "loading (run (Some (lit ''k'')) sample_parse [ChangeUrl (lit ''u''), SubmitForm] initial)
   \<and> \<not> loading (handleExtract_resume sample_parse 0 (Resolved (Some (lit ''A'')))
        (run (Some (lit ''k'')) sample_parse [ChangeUrl (lit ''u''), SubmitForm] initial))
   \<and> \<not> loading (handleExtract_resume sample_parse 0 (Rejected (JsError (lit ''503'')))
        (run (Some (lit ''k'')) sample_parse [ChangeUrl (lit ''u''), SubmitForm] initial))"
proof -
  let ?w = "run (Some (lit ''k'')) sample_parse [ChangeUrl (lit ''u''), SubmitForm] initial"
  have k: "0 \<in> set (inflight ?w)" by (simp add: sample_running)
  have l: "loading ?w" by (simp add: sample_running)
  show ?thesis
    using l settled_call_is_not_loading [OF k, of sample_parse "Resolved (Some (lit ''A''))"]
      settled_call_is_not_loading [OF k, of sample_parse "Rejected (JsError (lit ''503''))"]
    by simp
qed




section \<open>Selecting an image\<close>

text \<open>
  Claim C5: in every state the page can reach that holds a product \<open>r\<close>, selecting the
  image \<open>i\<close> sets the selected index to \<open>i\<close> when \<open>0 \<le> i < length (images r)\<close> and
  changes nothing else, and leaves the whole state as it is for every other \<open>i\<close>. (For a
  product with one image no strip is shown, and the selected index is \<open>0\<close> already.)
\<close>

theorem selectImage_in_bounds:
  assumes reach: "w = run apiKey parse evs initial"
    and ready: "product w = Some r"
  shows "(0 \<le> i \<and> i < int (length (images r)) \<longrightarrow> selectImage i w = w\<lparr>activeImage := i\<rparr>)
         \<and> (\<not> (0 \<le> i \<and> i < int (length (images r))) \<longrightarrow> selectImage i w = w)"
proof -
  have inv: "ui_inv w" using reach by (simp add: ui_inv_reachable)
  have cur: "activeImage w = 0 \<or> (0 \<le> activeImage w \<and> activeImage w < int (length (images r)))"
    using inv ready by (simp add: ui_inv_def)
  show ?thesis
  proof (cases "1 < length (images r)")
    case True
    then show ?thesis
      by (simp add: selectImage_def setActiveImage_def thumbnails_mem [OF ready])
  next
    case False
    have no: "selectImage i w = w"
      using False by (simp add: selectImage_def thumbnails_mem [OF ready])
    have "i = activeImage w" if "0 \<le> i" "i < int (length (images r))"
      using that cur False by auto
    then show ?thesis using no by auto
  qed
qed

theorem selectImage_in_bounds_witness:
  "activeImage (selectImage 2 (run (Some (lit ''k'')) sample_parse
       [ChangeUrl (lit ''u''), SubmitForm, Settle 0 (Resolved (Some (lit ''A'')))] initial)) = 2
   \<and> selectImage 3 (run (Some (lit ''k'')) sample_parse
       [ChangeUrl (lit ''u''), SubmitForm, Settle 0 (Resolved (Some (lit ''A'')))] initial)
     = run (Some (lit ''k'')) sample_parse
       [ChangeUrl (lit ''u''), SubmitForm, Settle 0 (Resolved (Some (lit ''A'')))] initial
   \<and> selectImage (- 1) (run (Some (lit ''k'')) sample_parse
       [ChangeUrl (lit ''u''), SubmitForm, Settle 0 (Resolved (Some (lit ''A'')))] initial)
     = run (Some (lit ''k'')) sample_parse
       [ChangeUrl (lit ''u''), SubmitForm, Settle 0 (Resolved (Some (lit ''A'')))] initial"
proof -
  let ?w = "run (Some (lit ''k'')) sample_parse
       [ChangeUrl (lit ''u''), SubmitForm, Settle 0 (Resolved (Some (lit ''A'')))] initial"
  have r: "product ?w = Some (widget [lit ''a1'', lit ''a2'', lit ''a3''])"
    by (simp add: sample_ready)
  have n: "length (images (widget [lit ''a1'', lit ''a2'', lit ''a3''])) = 3"
    by (simp add: widget_def)
  show ?thesis
    using selectImage_in_bounds [OF refl r, of 2] selectImage_in_bounds [OF refl r, of 3]
      selectImage_in_bounds [OF refl r, of "- 1"] n
    by simp
qed

section \<open>Copying the summary\<close>

text \<open>
  Claim C6: in every state that holds a product \<open>r\<close>, copying hands the summary of \<open>r\<close> to
  the clipboard, the summary contains the name and the price of \<open>r\<close> as contiguous
  substrings, and the copied flag is set.
\<close>

theorem copy_summary:
  assumes "product w = Some r"
  shows "clipboard (copyToClipboard w) = clipboard w @ [summary r]
         \<and> sublist (name r) (summary r)
         \<and> sublist (price r) (summary r)
         \<and> copied (copyToClipboard w)"
proof -
  have n: "sublist (name r) (summary r)"
    unfolding summary_def by (rule sublist_appendI)
  have "summary r = (lit ''Produto: '' @ name r @ [0x0A] @ lit ''Pre'' @ [0xE7] @ lit ''o: '')
          @ price r
          @ ([0x0A, 0x0A] @ lit ''Descri'' @ [0xE7, 0xE3] @ lit ''o:'' @ [0x0A] @ description r)"
    by (simp add: summary_def)
  then have p: "sublist (price r) (summary r)"
    by (simp only: sublist_appendI)
  show ?thesis using assms n p by (simp add: copyToClipboard_def)
qed

theorem copy_summary_witness:
  "product (initial\<lparr>product := Some (widget [])\<rparr>) = Some (widget [])
   \<and> clipboard (copyToClipboard (initial\<lparr>product := Some (widget [])\<rparr>)) = [summary (widget [])]
   \<and> sublist (lit ''Blue Widget'') (summary (widget []))
   \<and> sublist (lit ''R$ 29,90'') (summary (widget []))
   \<and> copied (copyToClipboard (initial\<lparr>product := Some (widget [])\<rparr>))"
proof -
  have r: "product (initial\<lparr>product := Some (widget [])\<rparr>) = Some (widget [])" by simp
  have c: "clipboard (initial\<lparr>product := Some (widget [])\<rparr>) = []" by (simp add: initial_def)
  have f: "name (widget []) = lit ''Blue Widget''" "price (widget []) = lit ''R$ 29,90''"
    by (simp_all add: widget_def)
  show ?thesis using copy_summary [OF r] c f by simp
qed

text \<open>
  Claim C7, as stated, at a concrete input: a copy at time 0 and a second copy at time
  1500, which sets the flag again. At time 2000 the timer of the first copy fires and
  clears the flag, 500 ms after the second copy, while the timer of the second copy (due
  at 3500) is still pending: the second copy has not superseded the first reset.
\<close>

theorem earlier_timer_clears_later_flag_counterexample:
  "copied (copyToClipboard (advance 1500 (copyToClipboard (initial\<lparr>product := Some (widget [])\<rparr>))))
   \<and> now (copyToClipboard (advance 1500 (copyToClipboard (initial\<lparr>product := Some (widget [])\<rparr>)))) = 1500
   \<and> \<not> copied (advance 500
        (copyToClipboard (advance 1500 (copyToClipboard (initial\<lparr>product := Some (widget [])\<rparr>)))))
   \<and> timers (advance 500
        (copyToClipboard (advance 1500 (copyToClipboard (initial\<lparr>product := Some (widget [])\<rparr>)))))
       = [3500]"
  by (simp add: copyToClipboard_def advance_def initial_def Let_def)

text \<open>
  Claim C7, amended: a copy made with a product present sets the flag and schedules one
  reset two seconds ahead, keeping every reset that is already pending (none is
  cancelled). The reset is one-shot: two seconds later the flag is false and that timer is
  gone. Before the two seconds are over the flag stays true as long as no reset of an
  earlier copy comes due; a reset of an earlier copy that comes due clears the flag.
\<close>

theorem copy_flag_timer:
  assumes "product w = Some r"
  shows "copied (copyToClipboard w)
         \<and> timers (copyToClipboard w) = timers w @ [now w + 2000]
         \<and> \<not> copied (advance 2000 (copyToClipboard w))
         \<and> now w + 2000 \<notin> set (timers (advance 2000 (copyToClipboard w)))
         \<and> (d < 2000 \<and> list_all (\<lambda>t. now w + d < t) (timers w)
              \<longrightarrow> copied (advance d (copyToClipboard w)))
         \<and> (list_ex (\<lambda>t. t \<le> now w + d) (timers w)
              \<longrightarrow> \<not> copied (advance d (copyToClipboard w)))"
proof -
  have w': "copyToClipboard w = w\<lparr>clipboard := clipboard w @ [summary r], copied := True,
              timers := timers w @ [now w + 2000]\<rparr>"
    using assms by (simp add: copyToClipboard_def)
  have a: "copied (copyToClipboard w)" by (simp add: w')
  have b: "timers (copyToClipboard w) = timers w @ [now w + 2000]" by (simp add: w')
  have c: "\<not> copied (advance 2000 (copyToClipboard w))" by (simp add: w' advance_def Let_def list_ex_iff)
  have e: "now w + 2000 \<notin> set (timers (advance 2000 (copyToClipboard w)))"
    by (simp add: w' advance_def Let_def list_ex_iff)
  have f: "d < 2000 \<and> list_all (\<lambda>t. now w + d < t) (timers w)
              \<longrightarrow> copied (advance d (copyToClipboard w))"
    by (fastforce simp: w' advance_def Let_def list_all_iff list_ex_iff)
  have g: "list_ex (\<lambda>t. t \<le> now w + d) (timers w)
              \<longrightarrow> \<not> copied (advance d (copyToClipboard w))"
    by (auto simp: w' advance_def Let_def list_ex_iff)
  show ?thesis using a b c e f g by blast
qed

theorem copy_flag_timer_witness:
  "copied (copyToClipboard (initial\<lparr>product := Some (widget [])\<rparr>))
   \<and> timers (copyToClipboard (initial\<lparr>product := Some (widget [])\<rparr>)) = [2000]
   \<and> copied (advance 1999 (copyToClipboard (initial\<lparr>product := Some (widget [])\<rparr>)))
   \<and> \<not> copied (advance 2000 (copyToClipboard (initial\<lparr>product := Some (widget [])\<rparr>)))
   \<and> \<not> copied (advance 500 (copyToClipboard
         (initial\<lparr>product := Some (widget []), now := 1500, timers := [2000]\<rparr>)))"
proof -
  have r: "product (initial\<lparr>product := Some (widget [])\<rparr>) = Some (widget [])" by simp
  have r': "product (initial\<lparr>product := Some (widget []), now := 1500, timers := [2000]\<rparr>)
              = Some (widget [])" by simp
  have t: "timers (initial\<lparr>product := Some (widget [])\<rparr>) = []"
    "now (initial\<lparr>product := Some (widget [])\<rparr>) = 0"
    by (simp_all add: initial_def)
  show ?thesis
    using copy_flag_timer [OF r, of 1999] copy_flag_timer [OF r', of 500] t by simp
qed

end
